theory Spec2Isabelle
  imports Complex_Main "HOL-Library.Word"
begin

section \<open>Go's \<^verbatim>\<open>time\<close> package, as far as the repository relies on it\<close>

text \<open>
  The repository wraps Go's \<^verbatim>\<open>time.Time\<close> and delegates formatting, parsing, zero
  detection and subtraction to the standard library. This section embeds the part of the
  standard library the two source files call. An instant is the number of seconds since
  January 1, year 1, 00:00:00 UTC (what Go's \<^verbatim>\<open>t.sec()\<close> returns), the nanoseconds within
  that second (\<^verbatim>\<open>t.nsec()\<close>) and the offset east of UTC, in seconds, of its location at
  that instant (\<^verbatim>\<open>UTC\<close> is offset 0). The monotonic clock reading that \<^verbatim>\<open>time.Now\<close>
  attaches is not represented: the instants of the model are those without one, as
  \<^verbatim>\<open>Parse\<close>, \<^verbatim>\<open>time.Date\<close> and a database driver make them. Go computes calendar fields
  on an unsigned count shifted by a multiple of 400 years; the model computes the same
  fields on \<open>int\<close> with flooring division.
\<close>

record time_Time =
  sec :: int
  nsec :: int
  loc :: int

text \<open>\<^verbatim>\<open>time.Time{}\<close>, the zero instant: January 1, year 1, 00:00:00 UTC.\<close>

definition zero_Time :: time_Time where
  "zero_Time = \<lparr>sec = 0, nsec = 0, loc = 0\<rparr>"

text \<open>\<^verbatim>\<open>func (t Time) IsZero() bool { return t.sec() == 0 && t.nsec() == 0 }\<close>\<close>

definition Time_IsZero :: "time_Time \<Rightarrow> bool" where
  "Time_IsZero t = (sec t = 0 \<and> nsec t = 0)"

subsection \<open>Calendar\<close>

definition isLeap :: "int \<Rightarrow> bool" where
  "isLeap year = (year mod 4 = 0 \<and> (year mod 100 \<noteq> 0 \<or> year mod 400 = 0))"

definition daysBefore :: "int list" where
  "daysBefore = [0, 31, 59, 90, 120, 151, 181, 212, 243, 273, 304, 334, 365]"

text \<open>\<^verbatim>\<open>daysIn\<close> is only called with a month in 1..12: \<^verbatim>\<open>Parse\<close> checks the range first.\<close>

definition daysIn :: "int \<Rightarrow> int \<Rightarrow> int" where
  "daysIn m year =
     (if m = 2 \<and> isLeap year then 29
      else daysBefore ! nat m - daysBefore ! nat (m - 1))"

text \<open>
  \<^verbatim>\<open>absDate\<close>: year, month and day of a count of days since January 1, year 1
  (400-year, 100-year and 4-year cycles cut off in turn, as in Go).
\<close>

definition absDate :: "int \<Rightarrow> int \<times> int \<times> int" where
  "absDate days =
     (let n400 = days div 146097;
          d1 = days - 146097 * n400;
          n100 = d1 div 36524;
          n100' = n100 - n100 div 4;
          d2 = d1 - 36524 * n100';
          n4 = d2 div 1461;
          d3 = d2 - 1461 * n4;
          n1 = d3 div 365;
          n1' = n1 - n1 div 4;
          yday = d3 - 365 * n1';
          year = 400 * n400 + 100 * n100' + 4 * n4 + n1' + 1
      in if isLeap year \<and> yday = 31 + 29 - 1 then (year, 2, 29)
         else
           (let day = (if isLeap year \<and> yday > 31 + 29 - 1 then yday - 1 else yday);
                month = day div 31;
                end = daysBefore ! nat (month + 1)
            in if day \<ge> end then (year, month + 2, day - end + 1)
               else (year, month + 1, day - daysBefore ! nat month + 1)))"

text \<open>\<^verbatim>\<open>absClock\<close>: hour, minute and second within the day.\<close>

definition absClock :: "int \<Rightarrow> int \<times> int \<times> int" where
  "absClock a =
     (let s = a mod 86400;
          hour = s div 3600;
          s1 = s - hour * 3600;
          minute = s1 div 60
      in (hour, minute, s1 - minute * 60))"

text \<open>\<^verbatim>\<open>t.abs()\<close>: the seconds shown on the wall clock of the instant's location.\<close>

definition Time_abs :: "time_Time \<Rightarrow> int" where
  "Time_abs t = sec t + loc t"

definition Time_Date :: "time_Time \<Rightarrow> int \<times> int \<times> int" where
  "Time_Date t = absDate (Time_abs t div 86400)"

definition Time_Clock :: "time_Time \<Rightarrow> int \<times> int \<times> int" where
  "Time_Clock t = absClock (Time_abs t)"

text \<open>\<^verbatim>\<open>norm\<close> carries an out-of-range low field into the high one.\<close>

definition norm2 :: "int \<Rightarrow> int \<Rightarrow> int \<Rightarrow> int \<times> int" where
  "norm2 hi lo base =
     (let (hi1, lo1) =
            (if lo < 0
             then (let n = (- lo - 1) div base + 1 in (hi - n, lo + n * base))
             else (hi, lo))
      in if lo1 \<ge> base
         then (let n = lo1 div base in (hi1 + n, lo1 - n * base))
         else (hi1, lo1))"

text \<open>
  \<^verbatim>\<open>time.Date(year, month, day, hour, min, sec, nsec, loc)\<close> for a location of fixed
  offset: the fields are normalised, the days since January 1, year 1 are counted by
  cycles, and the offset is subtracted to reach UTC.
\<close>

definition time_Date :: "int \<Rightarrow> int \<Rightarrow> int \<Rightarrow> int \<Rightarrow> int \<Rightarrow> int \<Rightarrow> int \<Rightarrow> int \<Rightarrow> time_Time" where
  "time_Date year month day hour minute second nanos offset =
     (let (year1, m) = norm2 year (month - 1) 12;
          month1 = m + 1;
          (second1, nanos1) = norm2 second nanos 1000000000;
          (minute1, second2) = norm2 minute second1 60;
          (hour1, minute2) = norm2 hour minute1 60;
          (day1, hour2) = norm2 day hour1 24;
          y = year1 - 1;
          n400 = y div 400;
          y1 = y - 400 * n400;
          n100 = y1 div 100;
          y2 = y1 - 100 * n100;
          n4 = y2 div 4;
          y3 = y2 - 4 * n4;
          d = 146097 * n400 + 36524 * n100 + 1461 * n4 + 365 * y3
                + daysBefore ! nat (month1 - 1)
                + (if isLeap year1 \<and> month1 \<ge> 3 then 1 else 0)
                + (day1 - 1)
      in \<lparr>sec = d * 86400 + hour2 * 3600 + minute2 * 60 + second2 - offset,
          nsec = nanos1, loc = offset\<rparr>)"

text \<open>
  \<^verbatim>\<open>func (t Time) Sub(u Time) Duration\<close>: the difference in nanoseconds, as a signed
  64-bit count that saturates at the largest and smallest \<^verbatim>\<open>Duration\<close>.
\<close>

definition maxDuration :: int where
  "maxDuration = 2 ^ 63 - 1"

definition minDuration :: int where
  "minDuration = - (2 ^ 63)"

definition Time_Sub :: "time_Time \<Rightarrow> time_Time \<Rightarrow> int" where
  "Time_Sub t u =
     (let d = (sec t - sec u) * 1000000000 + (nsec t - nsec u)
      in if d < minDuration then minDuration
         else if d > maxDuration then maxDuration
         else d)"

section \<open>Go's \<^verbatim>\<open>time\<close> package: layouts, formatting and parsing\<close>

subsection \<open>Layout elements\<close>

text \<open>
  A layout is text in which the fields of the reference time stand for the fields of the
  time to print or read. Of Go's layout elements the model knows the seven that occur in
  the layouts the repository hands to \<^verbatim>\<open>Format\<close> and \<^verbatim>\<open>Parse\<close>: \<^verbatim>\<open>2006\<close>, \<^verbatim>\<open>01\<close>,
  \<^verbatim>\<open>02\<close>, \<^verbatim>\<open>15\<close>, \<^verbatim>\<open>04\<close>, \<^verbatim>\<open>05\<close> and \<^verbatim>\<open>Z07:00\<close>. Everything else in a layout is
  taken as literal text, so a layout written with another element of Go's (a month or
  weekday name, an unpadded field, a 12-hour clock, a numeric zone, a fraction of a
  second) is outside the model.
\<close>

datatype std =
    stdNone
  | stdLongYear
  | stdZeroMonth
  | stdZeroDay
  | stdHour
  | stdZeroMinute
  | stdZeroSecond
  | stdISO8601ColonTZ

text \<open>
  \<^verbatim>\<open>nextStdChunk\<close> cuts a layout at its first element: the text before it, the element,
  the text after it. With no element left, the whole layout is the text before.
\<close>

fun nextStdChunk :: "string \<Rightarrow> string \<times> std \<times> string" where
  "nextStdChunk [] = ([], stdNone, [])"
| "nextStdChunk (c # cs) =
     (if c = CHR ''2'' \<and> take 3 cs = ''006'' then ([], stdLongYear, drop 3 cs)
      else if c = CHR ''0'' \<and> take 1 cs = ''1'' then ([], stdZeroMonth, drop 1 cs)
      else if c = CHR ''0'' \<and> take 1 cs = ''2'' then ([], stdZeroDay, drop 1 cs)
      else if c = CHR ''1'' \<and> take 1 cs = ''5'' then ([], stdHour, drop 1 cs)
      else if c = CHR ''0'' \<and> take 1 cs = ''4'' then ([], stdZeroMinute, drop 1 cs)
      else if c = CHR ''0'' \<and> take 1 cs = ''5'' then ([], stdZeroSecond, drop 1 cs)
      else if c = CHR ''Z'' \<and> take 5 cs = ''07:00'' then ([], stdISO8601ColonTZ, drop 5 cs)
      else (case nextStdChunk cs of (prefix, s, suffix) \<Rightarrow> (c # prefix, s, suffix)))"

lemma nextStdChunk_length:
  "nextStdChunk layout = (prefix, s, suffix) \<Longrightarrow> s \<noteq> stdNone \<Longrightarrow>
     length suffix < length layout"
  by (induction layout arbitrary: prefix) (auto split: if_splits prod.splits)

subsection \<open>Formatting\<close>

text \<open>
  \<^verbatim>\<open>appendInt\<close> appends the decimal form of an integer, with a minus sign when it is
  negative and zeros in front up to the given width. \<open>digits\<close> is its loop, which
  assembles the decimal digits from the last one.
\<close>

definition digitChar :: "nat \<Rightarrow> char" where
  "digitChar n = ''0123456789'' ! n"

fun digits :: "nat \<Rightarrow> string" where
  "digits u = (if u \<ge> 10 then digits (u div 10) @ [digitChar (u mod 10)] else [digitChar u])"

declare digits.simps [simp del]

definition appendInt :: "string \<Rightarrow> int \<Rightarrow> nat \<Rightarrow> string" where
  "appendInt b x width =
     (let ds = digits (nat \<bar>x\<bar>)
      in b @ (if x < 0 then ''-'' else []) @ replicate (width - length ds) (CHR ''0'') @ ds)"

text \<open>What \<^verbatim>\<open>Format\<close> appends for one layout element.\<close>

definition formatStd :: "time_Time \<Rightarrow> std \<Rightarrow> string" where
  "formatStd t s =
     (case Time_Date t of (year, month, day) \<Rightarrow>
      case Time_Clock t of (hour, minute, second) \<Rightarrow>
        (case s of
           stdNone \<Rightarrow> []
         | stdLongYear \<Rightarrow> appendInt [] year 4
         | stdZeroMonth \<Rightarrow> appendInt [] month 2
         | stdZeroDay \<Rightarrow> appendInt [] day 2
         | stdHour \<Rightarrow> appendInt [] hour 2
         | stdZeroMinute \<Rightarrow> appendInt [] minute 2
         | stdZeroSecond \<Rightarrow> appendInt [] second 2
         | stdISO8601ColonTZ \<Rightarrow>
             (if loc t = 0 then ''Z''
              else (let zone = \<bar>loc t\<bar> div 60
                    in (if loc t \<le> - 60 then ''-'' else ''+'')
                       @ appendInt [] (zone div 60) 2 @ '':'' @ appendInt [] (zone mod 60) 2))))"

text \<open>
  \<^verbatim>\<open>func (t Time) Format(layout string) string\<close>: the text before each element is
  copied, each element is replaced by the field of \<open>t\<close>.
\<close>

function Time_Format :: "time_Time \<Rightarrow> string \<Rightarrow> string" where
  "Time_Format t layout =
     (case nextStdChunk layout of
        (prefix, s, suffix) \<Rightarrow>
          if s = stdNone then prefix
          else prefix @ formatStd t s @ Time_Format t suffix)"
  by pat_completeness auto
termination
  by (relation "measure (\<lambda>(t, layout). length layout)") (auto dest: nextStdChunk_length [OF sym])

declare Time_Format.simps [simp del]

subsection \<open>Parsing\<close>

text \<open>
  Go's \<^verbatim>\<open>error\<close> values, as far as the two packages meet them: the \<^verbatim>\<open>*time.ParseError\<close>
  of \<^verbatim>\<open>Parse\<close> with its fields \<^verbatim>\<open>Layout\<close>, \<^verbatim>\<open>Value\<close>, \<^verbatim>\<open>LayoutElem\<close>, \<^verbatim>\<open>ValueElem\<close> and
  \<^verbatim>\<open>Message\<close>, the \<^verbatim>\<open>*json.UnmarshalTypeError\<close> of the JSON decoder with the kind of
  JSON value it met and the Go type it could not store it in, and the errors made from
  a text by \<^verbatim>\<open>errors.New\<close> and \<^verbatim>\<open>fmt.Errorf\<close>. A nil error is \<open>None\<close>.
\<close>

datatype error =
    ParseError string string string string string
  | UnmarshalTypeError string string
  | ErrorString string

definition errBad :: error where
  "errBad = ErrorString ''bad value for field''"

definition atoiError :: error where
  "atoiError = ErrorString ''time: invalid number''"

definition errLeadingInt :: error where
  "errLeadingInt = ErrorString ''time: bad [0-9]*''"

definition isDigitChar :: "char \<Rightarrow> bool" where
  "isDigitChar c = (48 \<le> (of_char c :: nat) \<and> (of_char c :: nat) \<le> 57)"

definition isDigit :: "string \<Rightarrow> nat \<Rightarrow> bool" where
  "isDigit s i = (if length s \<le> i then False else isDigitChar (s ! i))"

definition digitVal :: "char \<Rightarrow> int" where
  "digitVal c = int (of_char c) - 48"

text \<open>
  \<^verbatim>\<open>getnum\<close> reads one or two digits; with \<open>fixed\<close> it insists on two. On failure it
  hands back the text untouched.
\<close>

definition getnum :: "string \<Rightarrow> bool \<Rightarrow> int \<times> string \<times> error option" where
  "getnum s fixed =
     (if \<not> isDigit s 0 then (0, s, Some errBad)
      else if \<not> isDigit s 1 then
        (if fixed then (0, s, Some errBad) else (digitVal (s ! 0), drop 1 s, None))
      else (digitVal (s ! 0) * 10 + digitVal (s ! 1), drop 2 s, None))"

text \<open>
  \<^verbatim>\<open>leadingInt\<close> consumes the leading digits of a text as an \<^verbatim>\<open>int64\<close> and fails when
  the number leaves the range; the second argument of the loop is the number so far.
\<close>

fun leadingInt_loop :: "int \<Rightarrow> string \<Rightarrow> int \<times> string \<times> error option" where
  "leadingInt_loop x [] = (x, [], None)"
| "leadingInt_loop x (c # cs) =
     (if \<not> isDigitChar c then (x, c # cs, None)
      else if x > (2 ^ 63 - 1) div 10 then (0, [], Some errLeadingInt)
      else (let x' = x * 10 + digitVal c
            in if x' > 2 ^ 63 - 1 then (0, [], Some errLeadingInt)
               else leadingInt_loop x' cs))"

definition leadingInt :: "string \<Rightarrow> int \<times> string \<times> error option" where
  "leadingInt s = leadingInt_loop 0 s"

definition atoi :: "string \<Rightarrow> int \<times> error option" where
  "atoi s0 =
     (let signed = (s0 \<noteq> [] \<and> (hd s0 = CHR ''-'' \<or> hd s0 = CHR ''+''));
          neg = (signed \<and> hd s0 = CHR ''-'');
          s = (if signed then tl s0 else s0)
      in case leadingInt s of
           (q, rem, err) \<Rightarrow>
             if err \<noteq> None \<or> rem \<noteq> [] then (0, Some atoiError)
             else (if neg then - q else q, None))"

definition cutspace :: "string \<Rightarrow> string" where
  "cutspace s = dropWhile (\<lambda>c. c = CHR '' '') s"

text \<open>
  \<^verbatim>\<open>skip\<close> removes the literal text \<open>prefix\<close> from the front of \<open>value\<close>; a space in the
  prefix stands for any run of spaces, also an empty one at the end of the value.
\<close>

function skip :: "string \<Rightarrow> string \<Rightarrow> string \<times> error option" where
  "skip value [] = (value, None)"
| "skip value (p # ps) =
     (if p = CHR '' '' then
        (if value \<noteq> [] \<and> hd value \<noteq> CHR '' '' then (value, Some errBad)
         else skip (cutspace value) (cutspace (p # ps)))
      else if value = [] \<or> hd value \<noteq> p then (value, Some errBad)
      else skip (tl value) ps)"
  by pat_completeness auto
termination
  by (relation "measure (\<lambda>(value, prefix). length prefix)")
     (auto simp: cutspace_def intro: le_imp_less_Suc length_dropWhile_le)

text \<open>
  \<^verbatim>\<open>parseNanoseconds\<close> reads a fraction of a second, the point included, from the first
  \<open>nbytes\<close> bytes of the value. \<^verbatim>\<open>Parse\<close> calls it with a value that starts with a point
  and a digit.
\<close>

definition parseNanoseconds :: "string \<Rightarrow> nat \<Rightarrow> int \<times> string \<times> error option" where
  "parseNanoseconds value nbytes =
     (if take 1 value \<noteq> ''.'' then (0, [], Some errBad)
      else case atoi (take (nbytes - 1) (drop 1 value)) of
             (ns, err) \<Rightarrow>
               if err \<noteq> None then (ns, [], err)
               else if ns < 0 \<or> 1000000000 \<le> ns then (ns, ''fractional second'', None)
               else (ns * 10 ^ (10 - nbytes), [], None))"

text \<open>
  The fields \<^verbatim>\<open>Parse\<close> collects: \<^verbatim>\<open>year\<close>, \<^verbatim>\<open>month\<close>, \<^verbatim>\<open>day\<close>, \<^verbatim>\<open>hour\<close>, \<^verbatim>\<open>min\<close>, \<^verbatim>\<open>sec\<close>,
  \<^verbatim>\<open>nsec\<close>, whether the zone \<^verbatim>\<open>z\<close> was set (it is only ever set to \<^verbatim>\<open>UTC\<close> here), and
  \<^verbatim>\<open>zoneOffset\<close>, which is -1 as long as no offset was read.
\<close>

record parsed =
  p_year :: int
  p_month :: int
  p_day :: int
  p_hour :: int
  p_min :: int
  p_sec :: int
  p_nsec :: int
  p_z :: bool
  p_zoneOffset :: int

definition parsed_init :: parsed where
  "parsed_init =
     \<lparr>p_year = 0, p_month = 1, p_day = 1, p_hour = 0, p_min = 0, p_sec = 0, p_nsec = 0,
      p_z = False, p_zoneOffset = - 1\<rparr>"

text \<open>
  One turn of the \<^verbatim>\<open>switch\<close> of \<^verbatim>\<open>Parse\<close>: the fields and the value after reading one
  layout element, with \<^verbatim>\<open>rangeErrString\<close> (empty when unset) and \<^verbatim>\<open>err\<close>. After a two-digit
  second, a fraction in the value is read although the layout has none.
\<close>

definition parseStd :: "std \<Rightarrow> string \<Rightarrow> parsed \<Rightarrow> parsed \<times> string \<times> string \<times> error option" where
  "parseStd s value st =
     (case s of
        stdNone \<Rightarrow> (st, value, [], None)
      | stdLongYear \<Rightarrow>
          if length value < 4 \<or> \<not> isDigit value 0 then (st, value, [], Some errBad)
          else (case atoi (take 4 value) of
                  (y, err) \<Rightarrow> (st\<lparr>p_year := y\<rparr>, drop 4 value, [], err))
      | stdZeroMonth \<Rightarrow>
          (case getnum value True of
             (m, v, err) \<Rightarrow>
               (st\<lparr>p_month := m\<rparr>, v, if m \<le> 0 \<or> 12 < m then ''month'' else [], err))
      | stdZeroDay \<Rightarrow>
          (case getnum value True of
             (d, v, err) \<Rightarrow> (st\<lparr>p_day := d\<rparr>, v, if d < 0 then ''day'' else [], err))
      | stdHour \<Rightarrow>
          (case getnum value False of
             (h, v, err) \<Rightarrow>
               (st\<lparr>p_hour := h\<rparr>, v, if h < 0 \<or> 24 \<le> h then ''hour'' else [], err))
      | stdZeroMinute \<Rightarrow>
          (case getnum value True of
             (m, v, err) \<Rightarrow>
               (st\<lparr>p_min := m\<rparr>, v, if m < 0 \<or> 60 \<le> m then ''minute'' else [], err))
      | stdZeroSecond \<Rightarrow>
          (case getnum value True of
             (sc, v, err) \<Rightarrow>
               if sc < 0 \<or> 60 \<le> sc then (st\<lparr>p_sec := sc\<rparr>, v, ''second'', err)
               else if length v \<ge> 2 \<and> v ! 0 = CHR ''.'' \<and> isDigit v 1 then
                 (let n = 2 + length (takeWhile isDigitChar (drop 2 v))
                  in case parseNanoseconds v n of
                       (ns, rangeErrString, err') \<Rightarrow>
                         (st\<lparr>p_sec := sc, p_nsec := ns\<rparr>, drop n v, rangeErrString, err'))
               else (st\<lparr>p_sec := sc\<rparr>, v, [], err))
      | stdISO8601ColonTZ \<Rightarrow>
          if length value \<ge> 1 \<and> value ! 0 = CHR ''Z'' then (st\<lparr>p_z := True\<rparr>, drop 1 value, [], None)
          else if length value < 6 then (st, value, [], Some errBad)
          else if value ! 3 \<noteq> CHR '':'' then (st, value, [], Some errBad)
          else
            (let sign = take 1 value;
                 hour = take 2 (drop 1 value);
                 mn = take 2 (drop 4 value);
                 seconds = ''00'';
                 v = drop 6 value
             in case atoi hour of
                  (hr, err1) \<Rightarrow>
                    (case (if err1 = None then atoi mn else (0, err1)) of
                       (mm, err2) \<Rightarrow>
                         (case (if err2 = None then atoi seconds else (0, err2)) of
                            (ss, err3) \<Rightarrow>
                              (let zoneOffset = (hr * 60 + mm) * 60 + ss
                               in if sign = ''+'' then (st\<lparr>p_zoneOffset := zoneOffset\<rparr>, v, [], err3)
                                  else if sign = ''-'' then
                                    (st\<lparr>p_zoneOffset := - zoneOffset\<rparr>, v, [], err3)
                                  else (st\<lparr>p_zoneOffset := zoneOffset\<rparr>, v, [], Some errBad))))))"

text \<open>
  The loop of \<^verbatim>\<open>Parse\<close>, one layout element a turn: the literal text before the element
  is skipped in the value, then the element is read. \<open>alayout\<close> and \<open>avalue\<close> are the
  layout and the value as given, for the error. The loop ends at the layout's end, where
  text left in the value is an error.
\<close>

function parse_loop ::
  "string \<Rightarrow> string \<Rightarrow> string \<Rightarrow> string \<Rightarrow> parsed \<Rightarrow> error + parsed \<times> string" where
  "parse_loop alayout avalue layout value st =
     (case nextStdChunk layout of
        (prefix, s, suffix) \<Rightarrow>
          (let stdstr = take (length layout - length suffix - length prefix)
                          (drop (length prefix) layout)
           in case skip value prefix of
                (value1, err) \<Rightarrow>
                  if err \<noteq> None then Inl (ParseError alayout avalue prefix value1 [])
                  else if s = stdNone then
                    (if value1 \<noteq> [] then
                       Inl (ParseError alayout avalue [] value1 ('': extra text: '' @ value1))
                     else Inr (st, value1))
                  else
                    (case parseStd s value1 st of
                       (st', value2, rangeErrString, err') \<Rightarrow>
                         if rangeErrString \<noteq> [] then
                           Inl (ParseError alayout avalue stdstr value2
                                  ('': '' @ rangeErrString @ '' out of range''))
                         else if err' \<noteq> None then
                           Inl (ParseError alayout avalue stdstr value2 [])
                         else parse_loop alayout avalue suffix value2 st')))"
  by pat_completeness auto
termination
  by (relation "measure (\<lambda>(alayout, avalue, layout, value, st). length layout)")
     (auto dest: nextStdChunk_length [OF sym])

declare parse_loop.simps [simp del]

text \<open>
  \<^verbatim>\<open>func Parse(layout, value string) (Time, error)\<close>. After the loop the day is checked
  against the month, and the time is built: in \<^verbatim>\<open>UTC\<close> when no zone was read, else at
  the offset read. Every error comes with \<^verbatim>\<open>Time{}\<close>.
\<close>

definition time_Parse :: "string \<Rightarrow> string \<Rightarrow> time_Time \<times> error option" where
  "time_Parse layout value =
     (case parse_loop layout value layout value parsed_init of
        Inl e \<Rightarrow> (zero_Time, Some e)
      | Inr (st, value') \<Rightarrow>
          if p_day st < 1 \<or> p_day st > daysIn (p_month st) (p_year st) then
            (zero_Time, Some (ParseError layout value [] value' '': day out of range''))
          else
            (let t = time_Date (p_year st) (p_month st) (p_day st)
                       (p_hour st) (p_min st) (p_sec st) (p_nsec st) 0
             in if p_z st then (t, None)
                else if p_zoneOffset st \<noteq> - 1 then
                  (\<lparr>sec = sec t - p_zoneOffset st, nsec = nsec t, loc = p_zoneOffset st\<rparr>, None)
                else (t, None)))"

section \<open>Values of Go's empty interface, and panics\<close>

text \<open>
  \<^verbatim>\<open>FieldMap\<close>, \<^verbatim>\<open>Scan\<close>, \<^verbatim>\<open>Value\<close> and the JSON decoder hand around values of
  type \<^verbatim>\<open>interface{}\<close>: a value together with its dynamic type. The datatype lists the
  dynamic types the two source files and their tests put there; \<open>INil\<close> is the nil
  interface, which has no dynamic type.
\<close>

datatype iface =
    INil
  | IBool bool
  | IInt int
  | IInt64 "64 word"
  | IFloat64 real
  | IString string
  | IBytes string
  | ITime time_Time
  | IModelsDate time_Time
  | IStringSlice "string list"
  | ISlice "iface list"
  | IMap "(string \<times> iface) list"

text \<open>What \<^verbatim>\<open>%T\<close> prints, and what a failed type assertion reports, for a dynamic type.\<close>

fun typeName :: "iface \<Rightarrow> string" where
  "typeName INil = ''<nil>''"
| "typeName (IBool _) = ''bool''"
| "typeName (IInt _) = ''int''"
| "typeName (IInt64 _) = ''int64''"
| "typeName (IFloat64 _) = ''float64''"
| "typeName (IString _) = ''string''"
| "typeName (IBytes _) = ''[]uint8''"
| "typeName (ITime _) = ''time.Time''"
| "typeName (IModelsDate _) = ''models.Date''"
| "typeName (IStringSlice _) = ''[]string''"
| "typeName (ISlice _) = ''[]interface {}''"
| "typeName (IMap _) = ''map[string]interface {}''"

text \<open>
  A panic carries a value: \<^verbatim>\<open>panic(err)\<close> carries the error, and the unchecked
  assertion \<^verbatim>\<open>x.(T)\<close> panics with a \<^verbatim>\<open>*runtime.TypeAssertionError\<close> that names the
  dynamic type found (none for the nil interface) and the type asserted.
\<close>

datatype panic =
    TypeAssertionError "string option" string
  | PanicError error

text \<open>\<^verbatim>\<open>x.(int64)\<close> and \<^verbatim>\<open>x.(string)\<close>, the two unchecked assertions of the source.\<close>

fun assert_int64 :: "iface \<Rightarrow> panic + 64 word" where
  "assert_int64 (IInt64 n) = Inr n"
| "assert_int64 INil = Inl (TypeAssertionError None ''int64'')"
| "assert_int64 v = Inl (TypeAssertionError (Some (typeName v)) ''int64'')"

fun assert_string :: "iface \<Rightarrow> panic + string" where
  "assert_string (IString s) = Inr s"
| "assert_string INil = Inl (TypeAssertionError None ''string'')"
| "assert_string v = Inl (TypeAssertionError (Some (typeName v)) ''string'')"

section \<open>Package \<^verbatim>\<open>models\<close>: \<^verbatim>\<open>FieldMap\<close>\<close>

text \<open>
  \<^verbatim>\<open>type FieldMap map[string]interface{}\<close>. A key may be present with the nil interface
  as its value, which is \<open>Some INil\<close> here.
\<close>

type_synonym FieldMap = "string \<rightharpoonup> iface"

text \<open>
  \<^verbatim>\<open>RemovePKIfZero\<close> works on the map behind its pointer receiver and returns nothing;
  the model returns the map it leaves behind, or the panic of a failed assertion (what
  the first statement has deleted before the second one panics is not kept). In
  \<^verbatim>\<open>ok && idl.(int64) == 0\<close> the assertion is evaluated only when the key is present.
\<close>

definition RemovePKIfZero :: "FieldMap \<Rightarrow> panic + FieldMap" where
  "RemovePKIfZero fm =
     (case (case fm ''id'' of
              None \<Rightarrow> Inr fm
            | Some idl \<Rightarrow>
                (case assert_int64 idl of
                   Inl p \<Rightarrow> Inl p
                 | Inr n \<Rightarrow> Inr (if n = 0 then fm(''id'' := None) else fm))) of
        Inl p \<Rightarrow> Inl p
      | Inr fm1 \<Rightarrow>
          (case fm1 ''ID'' of
             None \<Rightarrow> Inr fm1
           | Some idu \<Rightarrow>
               (case assert_int64 idu of
                  Inl p \<Rightarrow> Inl p
                | Inr n \<Rightarrow> Inr (if n = 0 then fm1(''ID'' := None) else fm1))))"

section \<open>Go's \<^verbatim>\<open>encoding/json\<close> package, as far as \<^verbatim>\<open>RecordIDWithName\<close> relies on it\<close>

text \<open>
  A JSON text that is well formed, as the value it denotes. \<^verbatim>\<open>json.Unmarshal\<close> checks the
  whole text first and returns a \<^verbatim>\<open>*json.SyntaxError\<close> for one that is not well formed;
  the model starts after that check. A number is the real number its literal denotes
  (the rounding to \<^verbatim>\<open>float64\<close>, and the error for a literal beyond its range, are not
  modelled).
\<close>

datatype json =
    JNull
  | JBool bool
  | JNumber real
  | JString string
  | JArray "json list"
  | JObject "(string \<times> json) list"

text \<open>
  What the decoder stores in an \<^verbatim>\<open>interface{}\<close>: \<^verbatim>\<open>nil\<close>, a \<^verbatim>\<open>bool\<close>, a \<^verbatim>\<open>float64\<close> for
  every number, a \<^verbatim>\<open>string\<close>, a \<^verbatim>\<open>[]interface{}\<close> or a \<^verbatim>\<open>map[string]interface{}\<close> (given
  here with the members in the order of the text; Go keeps the last one of a repeated key).
\<close>

fun valueInterface :: "json \<Rightarrow> iface" where
  "valueInterface JNull = INil"
| "valueInterface (JBool b) = IBool b"
| "valueInterface (JNumber x) = IFloat64 x"
| "valueInterface (JString s) = IString s"
| "valueInterface (JArray xs) = ISlice (map valueInterface xs)"
| "valueInterface (JObject kvs) = IMap (map (map_prod id valueInterface) kvs)"

text \<open>
  \<^verbatim>\<open>json.Unmarshal(data, &arr)\<close> for \<^verbatim>\<open>var arr [2]interface{}\<close>. A JSON array fills the Go
  array from the front: elements beyond the second are dropped, and the elements the
  JSON array does not reach are set to the zero value, the nil interface; neither is an
  error. \<^verbatim>\<open>null\<close> leaves the array as it is, without an error. Any other JSON value is an
  \<^verbatim>\<open>*json.UnmarshalTypeError\<close>.
\<close>

definition json_Unmarshal :: "json \<Rightarrow> iface list \<Rightarrow> iface list \<times> error option" where
  "json_Unmarshal data arr =
     (case data of
        JNull \<Rightarrow> (arr, None)
      | JArray xs \<Rightarrow>
          ([if 0 < length xs then valueInterface (xs ! 0) else INil,
            if 1 < length xs then valueInterface (xs ! 1) else INil], None)
      | JBool _ \<Rightarrow> (arr, Some (UnmarshalTypeError ''bool'' ''[2]interface {}''))
      | JNumber _ \<Rightarrow> (arr, Some (UnmarshalTypeError ''number'' ''[2]interface {}''))
      | JString _ \<Rightarrow> (arr, Some (UnmarshalTypeError ''string'' ''[2]interface {}''))
      | JObject _ \<Rightarrow> (arr, Some (UnmarshalTypeError ''object'' ''[2]interface {}'')))"

section \<open>Package \<^verbatim>\<open>models\<close>: \<^verbatim>\<open>RecordIDWithName\<close>\<close>

record RecordIDWithName =
  ID :: "64 word"
  Name :: string

text \<open>
  \<^verbatim>\<open>MarshalJSON\<close> hands the array \<^verbatim>\<open>[2]interface{}{rf.ID, rf.Name}\<close> to \<^verbatim>\<open>json.Marshal\<close>,
  which writes an \<^verbatim>\<open>int64\<close> as a JSON number and a \<^verbatim>\<open>string\<close> as a JSON string and
  has no error for either. The result is given as the JSON value the bytes denote.
\<close>

definition RecordIDWithName_MarshalJSON :: "RecordIDWithName \<Rightarrow> json \<times> error option" where
  "RecordIDWithName_MarshalJSON rf = (JArray [JNumber (real_of_int (sint (ID rf))), JString (Name rf)], None)"

text \<open>
  \<^verbatim>\<open>UnmarshalJSON\<close> returns the decoder's error when there is one, and otherwise asserts
  with \<^verbatim>\<open>arr[0].(int64)\<close> and \<^verbatim>\<open>arr[1].(string)\<close>, which panic on another dynamic type.
  The result is the panic, or the receiver as it is left together with the error (the
  \<^verbatim>\<open>ID\<close> stored before the second assertion panics is not kept).
\<close>

definition RecordIDWithName_UnmarshalJSON ::
  "RecordIDWithName \<Rightarrow> json \<Rightarrow> panic + RecordIDWithName \<times> error option" where
  "RecordIDWithName_UnmarshalJSON rf data =
     (case json_Unmarshal data [INil, INil] of
        (arr, err) \<Rightarrow>
          if err \<noteq> None then Inr (rf, err)
          else (case assert_int64 (arr ! 0) of
                  Inl p \<Rightarrow> Inl p
                | Inr i \<Rightarrow>
                    (case assert_string (arr ! 1) of
                       Inl p \<Rightarrow> Inl p
                     | Inr s \<Rightarrow> Inr (rf\<lparr>ID := i, Name := s\<rparr>, None))))"

section \<open>Package \<^verbatim>\<open>models\<close>: \<^verbatim>\<open>Date\<close> and \<^verbatim>\<open>DateTime\<close>\<close>

text \<open>
  \<^verbatim>\<open>type Date time.Time\<close> and \<^verbatim>\<open>type DateTime time.Time\<close>: types of their own with the
  representation of \<^verbatim>\<open>time.Time\<close> and none of its methods. The conversion
  \<^verbatim>\<open>time.Time(d)\<close> changes nothing.
\<close>

type_synonym models_Date = time_Time

type_synonym models_DateTime = time_Time

definition models_Date_IsNull :: "models_Date \<Rightarrow> bool" where
  "models_Date_IsNull d = (if Time_Format d ''2006-01-02'' = ''0001-01-01'' then True else False)"

definition models_Date_MarshalJSON :: "models_Date \<Rightarrow> string \<times> error option" where
  "models_Date_MarshalJSON d =
     (if models_Date_IsNull d then (''null'', None)
      else (''\"'' @ Time_Format d ''2006-01-02'' @ ''\"'', None))"

definition models_Date_Value :: "models_Date \<Rightarrow> iface \<times> error option" where
  "models_Date_Value d =
     (if models_Date_IsNull d then (IString ''0001-01-01'', None)
      else (IModelsDate d, None))"

definition models_DateTime_IsNull :: "models_DateTime \<Rightarrow> bool" where
  "models_DateTime_IsNull d =
     (if Time_Format d ''2006-01-02 15:04:05'' = ''0001-01-01 00:00:00'' then True else False)"

definition models_DateTime_MarshalJSON :: "models_DateTime \<Rightarrow> string \<times> error option" where
  "models_DateTime_MarshalJSON d =
     (if models_DateTime_IsNull d then (''null'', None)
      else (''\"'' @ Time_Format d ''2006-01-02 15:04:05'' @ ''\"'', None))"

definition models_DateTime_Value :: "models_DateTime \<Rightarrow> iface \<times> error option" where
  "models_DateTime_Value d =
     (if models_DateTime_IsNull d then (IString ''0001-01-01 00:00:00'', None)
      else (IString (Time_Format d ''2006-01-02 15:04:05''), None))"

section \<open>Package \<^verbatim>\<open>dates\<close>\<close>

definition DefaultServerDateFormat :: string where
  "DefaultServerDateFormat = ''2006-01-02''"

text \<open>
  Modelled from the spec: the constant \<^verbatim>\<open>DefaultServerDateTimeFormat\<close>, which \<^verbatim>\<open>Scan\<close> uses
  and a file of the package that is not at hand declares. The spec gives the canonical
  layout of a DateTime as \<^verbatim>\<open>YYYY-MM-DD HH:MM:SS\<close>; in Go's notation that is the layout
  below, the one the \<^verbatim>\<open>models\<close> package writes out for its \<^verbatim>\<open>DateTime\<close>.
\<close>

definition DefaultServerDateTimeFormat :: string where
  "DefaultServerDateTimeFormat = ''2006-01-02 15:04:05''"

text \<open>\<^verbatim>\<open>type Date struct { time.Time }\<close>\<close>

datatype Date = Date (Date_Time: time_Time)

text \<open>
  Modelled from the spec: the type \<^verbatim>\<open>DateTime\<close> of the package, declared in a file that
  is not at hand. The spec has it wrap a point in time, and \<^verbatim>\<open>ToDateTime\<close> builds it with
  \<^verbatim>\<open>DateTime{d.Time}\<close>, so it is a struct around a \<^verbatim>\<open>time.Time\<close> like \<^verbatim>\<open>Date\<close>.
\<close>

datatype DateTime = DateTime (DateTime_Time: time_Time)

text \<open>
  \<^verbatim>\<open>Date\<close> declares no \<^verbatim>\<open>IsZero\<close>: \<^verbatim>\<open>d.IsZero()\<close> is the method of the embedded
  \<^verbatim>\<open>time.Time\<close>, promoted.
\<close>

definition Date_IsZero :: "Date \<Rightarrow> bool" where
  "Date_IsZero d = Time_IsZero (Date_Time d)"

definition Date_MarshalJSON :: "Date \<Rightarrow> string \<times> error option" where
  "Date_MarshalJSON d =
     (if Date_IsZero d then (''false'', None)
      else (''\"'' @ Time_Format (Date_Time d) DefaultServerDateFormat @ ''\"'', None))"

text \<open>\<^verbatim>\<open>strings.Trim(s, cutset)\<close> removes the characters of \<open>cutset\<close> from both ends of \<open>s\<close>.\<close>

definition strings_Trim :: "string \<Rightarrow> string \<Rightarrow> string" where
  "strings_Trim s cutset =
     rev (dropWhile (\<lambda>c. c \<in> set cutset) (rev (dropWhile (\<lambda>c. c \<in> set cutset) s)))"

definition Date_String :: "Date \<Rightarrow> string" where
  "Date_String d = strings_Trim (fst (Date_MarshalJSON d)) ''\"''"

definition Date_ToDateTime :: "Date \<Rightarrow> DateTime" where
  "Date_ToDateTime d = DateTime (Date_Time d)"

definition Date_Value :: "Date \<Rightarrow> iface \<times> error option" where
  "Date_Value d =
     (if Date_IsZero d then (ITime zero_Time, None)
      else (ITime (Date_Time d), None))"

definition ParseDateWithLayout :: "string \<Rightarrow> string \<Rightarrow> Date \<times> error option" where
  "ParseDateWithLayout layout value =
     (case time_Parse layout value of (t, err) \<Rightarrow> (Date t, err))"

text \<open>\<^verbatim>\<open>ParseDate\<close> panics with the error of \<^verbatim>\<open>ParseDateWithLayout\<close>.\<close>

definition ParseDate :: "string \<Rightarrow> panic + Date" where
  "ParseDate value =
     (case ParseDateWithLayout DefaultServerDateFormat value of
        (d, err) \<Rightarrow> (case err of Some e \<Rightarrow> Inl (PanicError e) | None \<Rightarrow> Inr d))"

text \<open>
  \<^verbatim>\<open>Scan\<close> has a pointer receiver and returns an error: the model takes the receiver as
  it is before and returns it as it is after, with the error. The second parse is tried
  when the first one failed, and its result is stored whether it failed or not.
\<close>

definition Date_Scan :: "Date \<Rightarrow> iface \<Rightarrow> Date \<times> error option" where
  "Date_Scan d src =
     (case src of
        ITime t \<Rightarrow> (Date t, None)
      | IString t \<Rightarrow>
          if t = [] then (Date zero_Time, None)
          else (case ParseDateWithLayout DefaultServerDateFormat t of
                  (val, err) \<Rightarrow>
                    if err \<noteq> None then ParseDateWithLayout DefaultServerDateTimeFormat t
                    else (val, err))
      | _ \<Rightarrow> (d, Some (ErrorString (''date data is not time.Time but '' @ typeName src))))"

definition Date_Sub :: "Date \<Rightarrow> Date \<Rightarrow> int" where
  "Date_Sub d t = Time_Sub (Date_Time d) (Date_Time t)"

definition Date_Equal :: "Date \<Rightarrow> Date \<Rightarrow> bool" where
  "Date_Equal d other = (Date_String d = Date_String other)"

definition Date_Greater :: "Date \<Rightarrow> Date \<Rightarrow> bool" where
  "Date_Greater d other = (Date_Sub d other > 0)"

definition Date_GreaterEqual :: "Date \<Rightarrow> Date \<Rightarrow> bool" where
  "Date_GreaterEqual d other = (Date_Sub d other \<ge> 0)"

definition Date_Lower :: "Date \<Rightarrow> Date \<Rightarrow> bool" where
  "Date_Lower d other = (Date_Sub d other < 0)"

definition Date_LowerEqual :: "Date \<Rightarrow> Date \<Rightarrow> bool" where
  "Date_LowerEqual d other = (Date_Sub d other \<le> 0)"

text \<open>
  \<^verbatim>\<open>Date\<close> declares no \<^verbatim>\<open>UnmarshalJSON\<close> either: the JSON decoder finds the method of the
  embedded \<^verbatim>\<open>time.Time\<close>, promoted, which reads a quoted time in RFC 3339 format and
  does nothing for \<^verbatim>\<open>null\<close>.
\<close>

definition RFC3339 :: string where
  "RFC3339 = ''2006-01-02T15:04:05Z07:00''"

definition Time_UnmarshalJSON :: "time_Time \<Rightarrow> string \<Rightarrow> time_Time \<times> error option" where
  "Time_UnmarshalJSON t data =
     (if data = ''null'' then (t, None)
      else time_Parse (''\"'' @ RFC3339 @ ''\"'') data)"

definition Date_UnmarshalJSON :: "Date \<Rightarrow> string \<Rightarrow> Date \<times> error option" where
  "Date_UnmarshalJSON d data =
     (case Time_UnmarshalJSON (Date_Time d) data of (t, err) \<Rightarrow> (Date t, err))"

section \<open>Properties\<close>

subsection \<open>Evaluations shared by the properties below\<close>

lemma zero_Time_sel: "sec zero_Time = 0" "nsec zero_Time = 0" "loc zero_Time = 0"
  by (simp_all add: zero_Time_def)

lemma Format_zero_date: "Time_Format zero_Time ''2006-01-02'' = ''0001-01-01''"
  by code_simp

lemma Format_zero_datetime: "Time_Format zero_Time ''2006-01-02 15:04:05'' = ''0001-01-01 00:00:00''"
  by code_simp

lemma time_Date_ten: "time_Date 1 1 1 10 0 0 0 0 = \<lparr>sec = 36000, nsec = 0, loc = 0\<rparr>"
  by code_simp

lemma Format_ten_date: "Time_Format \<lparr>sec = 36000, nsec = 0, loc = 0\<rparr> ''2006-01-02'' = ''0001-01-01''"
  by code_simp

lemma time_Date_midnight: "time_Date 2017 8 1 0 0 0 0 0 = \<lparr>sec = 63637142400, nsec = 0, loc = 0\<rparr>"
  by code_simp

lemma time_Date_morning: "time_Date 2017 8 1 10 2 57 0 0 = \<lparr>sec = 63637178577, nsec = 0, loc = 0\<rparr>"
  by code_simp

lemma Format_midnight: "Time_Format \<lparr>sec = 63637142400, nsec = 0, loc = 0\<rparr> ''2006-01-02'' = ''2017-08-01''"
  by code_simp

lemma Format_morning: "Time_Format \<lparr>sec = 63637178577, nsec = 0, loc = 0\<rparr> ''2006-01-02'' = ''2017-08-01''"
  by code_simp

lemma Parse_date_of_date:
  "time_Parse ''2006-01-02'' ''2017-08-01'' = (\<lparr>sec = 63637142400, nsec = 0, loc = 0\<rparr>, None)"
  by code_simp

lemma Parse_date_of_datetime:
  "time_Parse ''2006-01-02'' ''2017-08-01 10:02:57'' =
     (zero_Time, Some (ParseError ''2006-01-02'' ''2017-08-01 10:02:57'' [] '' 10:02:57''
                         '': extra text:  10:02:57''))"
  by code_simp

lemma Parse_datetime_of_datetime:
  "time_Parse ''2006-01-02 15:04:05'' ''2017-08-01 10:02:57'' =
     (\<lparr>sec = 63637178577, nsec = 0, loc = 0\<rparr>, None)"
  by code_simp

lemma Parse_date_of_empty:
  "time_Parse ''2006-01-02'' [] = (zero_Time, Some (ParseError ''2006-01-02'' [] ''2006'' [] []))"
  by code_simp

lemma Parse_RFC3339_of_date:
  "time_Parse ''\"2006-01-02T15:04:05Z07:00\"'' ''\"2017-08-01\"'' =
     (zero_Time, Some (ParseError ''\"2006-01-02T15:04:05Z07:00\"'' ''\"2017-08-01\"'' ''T'' ''\"'' []))"
  by code_simp

subsection \<open>Parsing a date in the canonical layout\<close>

lemma isDigitChar_digitVal: "isDigitChar c \<Longrightarrow> 0 \<le> digitVal c \<and> digitVal c \<le> 9"
  by (auto simp: isDigitChar_def digitVal_def)

lemma isDigitChar_not_sign: "isDigitChar c \<Longrightarrow> c \<noteq> CHR ''-'' \<and> c \<noteq> CHR ''+''"
  by (auto simp: isDigitChar_def)

lemma atoi_four_digits:
  assumes "isDigitChar a" "isDigitChar b" "isDigitChar c" "isDigitChar d"
  shows "atoi [a, b, c, d] =
           (digitVal a * 1000 + digitVal b * 100 + digitVal c * 10 + digitVal d, None)"
proof -
  note bs = isDigitChar_digitVal [OF assms(1)] isDigitChar_digitVal [OF assms(2)]
            isDigitChar_digitVal [OF assms(3)] isDigitChar_digitVal [OF assms(4)]
  have "leadingInt [a, b, c, d] =
          (digitVal a * 1000 + digitVal b * 100 + digitVal c * 10 + digitVal d, [], None)"
    using assms bs by (simp add: leadingInt_def Let_def)
  then show ?thesis
    using isDigitChar_not_sign [OF assms(1)] by (simp add: atoi_def)
qed

lemma getnum_two_digits:
  assumes "isDigitChar a" "isDigitChar b"
  shows "getnum (a # b # rest) fixed = (digitVal a * 10 + digitVal b, rest, None)"
  using assms by (simp add: getnum_def isDigit_def)

lemma parse_loop_canonical_date:
  assumes ds: "isDigitChar y1" "isDigitChar y2" "isDigitChar y3" "isDigitChar y4"
              "isDigitChar m1" "isDigitChar m2" "isDigitChar d1" "isDigitChar d2"
    and m: "1 \<le> digitVal m1 * 10 + digitVal m2" "digitVal m1 * 10 + digitVal m2 \<le> 12"
  shows "parse_loop al av ''2006-01-02''
           [y1, y2, y3, y4, CHR ''-'', m1, m2, CHR ''-'', d1, d2] parsed_init =
         Inr (parsed_init\<lparr>p_year := digitVal y1 * 1000 + digitVal y2 * 100 + digitVal y3 * 10 + digitVal y4,
                           p_month := digitVal m1 * 10 + digitVal m2,
                           p_day := digitVal d1 * 10 + digitVal d2\<rparr>, [])"
proof -
  have dd: "0 \<le> digitVal d1 * 10 + digitVal d2"
    using isDigitChar_digitVal [OF ds(7)] isDigitChar_digitVal [OF ds(8)] by simp
  have s3: "parse_loop al av [] [] st = Inr (st, [])" for st
    by (simp add: parse_loop.simps)
  have s2: "parse_loop al av ''-02'' [CHR ''-'', d1, d2] st =
              Inr (st\<lparr>p_day := digitVal d1 * 10 + digitVal d2\<rparr>, [])" for st
    using dd by (subst parse_loop.simps)
      (simp add: parseStd_def getnum_two_digits [OF ds(7) ds(8)] s3)
  have s1: "parse_loop al av ''-01-02'' [CHR ''-'', m1, m2, CHR ''-'', d1, d2] st =
              Inr (st\<lparr>p_month := digitVal m1 * 10 + digitVal m2,
                       p_day := digitVal d1 * 10 + digitVal d2\<rparr>, [])" for st
    using m by (subst parse_loop.simps)
      (simp add: parseStd_def getnum_two_digits [OF ds(5) ds(6)] s2)
  show ?thesis
    by (subst parse_loop.simps)
      (simp add: parseStd_def isDigit_def ds(1) atoi_four_digits [OF ds(1-4)] s1)
qed

lemma ParseDateWithLayout_canonical_date:
  assumes ds: "isDigitChar y1" "isDigitChar y2" "isDigitChar y3" "isDigitChar y4"
              "isDigitChar m1" "isDigitChar m2" "isDigitChar d1" "isDigitChar d2"
    and m: "1 \<le> digitVal m1 * 10 + digitVal m2" "digitVal m1 * 10 + digitVal m2 \<le> 12"
    and d: "1 \<le> digitVal d1 * 10 + digitVal d2"
           "digitVal d1 * 10 + digitVal d2 \<le>
              daysIn (digitVal m1 * 10 + digitVal m2)
                (digitVal y1 * 1000 + digitVal y2 * 100 + digitVal y3 * 10 + digitVal y4)"
  shows "ParseDateWithLayout DefaultServerDateFormat
           [y1, y2, y3, y4, CHR ''-'', m1, m2, CHR ''-'', d1, d2] =
         (Date (time_Date (digitVal y1 * 1000 + digitVal y2 * 100 + digitVal y3 * 10 + digitVal y4)
                  (digitVal m1 * 10 + digitVal m2) (digitVal d1 * 10 + digitVal d2) 0 0 0 0 0),
          None)"
proof -
  have "time_Parse ''2006-01-02'' [y1, y2, y3, y4, CHR ''-'', m1, m2, CHR ''-'', d1, d2] =
         (time_Date (digitVal y1 * 1000 + digitVal y2 * 100 + digitVal y3 * 10 + digitVal y4)
            (digitVal m1 * 10 + digitVal m2) (digitVal d1 * 10 + digitVal d2) 0 0 0 0 0, None)"
    unfolding time_Parse_def parse_loop_canonical_date [OF ds m]
    using d by (simp add: parsed_init_def)
  then show ?thesis
    by (simp add: ParseDateWithLayout_def DefaultServerDateFormat_def)
qed

subsection \<open>Null detection\<close>

text \<open>
  Claim C1, at the input the claim names. The \<^verbatim>\<open>dates\<close> package's \<^verbatim>\<open>Date\<close> of January 1,
  year 1, 10:00:00 UTC is formatted at day precision like the zero instant, and
  \<^verbatim>\<open>IsZero\<close> is false for it: for this type the null detection is not the comparison
  of the formatted strings.
\<close>

theorem Date_IsZero_ten_oclock:
  "Time_Format (Date_Time (Date (time_Date 1 1 1 10 0 0 0 0))) DefaultServerDateFormat
     = Time_Format zero_Time DefaultServerDateFormat
   \<and> \<not> Date_IsZero (Date (time_Date 1 1 1 10 0 0 0 0))"
  by (simp add: time_Date_ten DefaultServerDateFormat_def Format_ten_date Format_zero_date
        Date_IsZero_def Time_IsZero_def)

text \<open>
  Claim C1, amended. For the \<^verbatim>\<open>models\<close> package's \<^verbatim>\<open>Date\<close> and \<^verbatim>\<open>DateTime\<close>, \<^verbatim>\<open>IsNull\<close>
  is true exactly when the value formatted at the type's precision equals the zero
  instant formatted the same way; so the \<^verbatim>\<open>models\<close> \<^verbatim>\<open>Date\<close> of January 1, year 1,
  10:00:00 UTC is null. For the \<^verbatim>\<open>dates\<close> package's \<^verbatim>\<open>Date\<close>, \<^verbatim>\<open>IsZero\<close> is that of the
  embedded \<^verbatim>\<open>time.Time\<close>: true exactly when the instant is the zero instant, to the
  nanosecond.
\<close>

theorem null_detection:
  "(models_Date_IsNull t \<longleftrightarrow>
      Time_Format t ''2006-01-02'' = Time_Format zero_Time ''2006-01-02'')
   \<and> (models_DateTime_IsNull t \<longleftrightarrow>
      Time_Format t ''2006-01-02 15:04:05'' = Time_Format zero_Time ''2006-01-02 15:04:05'')
   \<and> models_Date_IsNull (time_Date 1 1 1 10 0 0 0 0)
   \<and> (Date_IsZero d \<longleftrightarrow> sec (Date_Time d) = 0 \<and> nsec (Date_Time d) = 0)"
  by (simp add: models_Date_IsNull_def models_DateTime_IsNull_def Format_zero_date
        Format_zero_datetime time_Date_ten Format_ten_date Date_IsZero_def Time_IsZero_def)

theorem null_detection_witness:
  "models_Date_IsNull zero_Time \<and> models_DateTime_IsNull zero_Time
   \<and> \<not> models_DateTime_IsNull \<lparr>sec = 36000, nsec = 0, loc = 0\<rparr>
   \<and> Date_IsZero (Date zero_Time)"
proof -
  have "Time_Format \<lparr>sec = 36000, nsec = 0, loc = 0\<rparr> ''2006-01-02 15:04:05'' = ''0001-01-01 10:00:00''"
    by code_simp
  then show ?thesis
    using null_detection [of zero_Time "Date zero_Time"]
      null_detection [of "\<lparr>sec = 36000, nsec = 0, loc = 0\<rparr>" "Date zero_Time"]
    by (simp add: Format_zero_datetime zero_Time_sel)
qed

subsection \<open>JSON round trip of a \<^verbatim>\<open>Date\<close>\<close>

text \<open>
  Claim C2, at the \<^verbatim>\<open>Date\<close> of August 1, 2017, 00:00:00 UTC. \<^verbatim>\<open>MarshalJSON\<close> writes
  \<^verbatim>\<open>"2017-08-01"\<close>. Decoding these bytes into a \<^verbatim>\<open>Date\<close> runs the \<^verbatim>\<open>UnmarshalJSON\<close> of the
  embedded \<^verbatim>\<open>time.Time\<close>, which wants RFC 3339: it returns an error and leaves the zero
  time, and the decoded value is not \<^verbatim>\<open>Equal\<close> to the encoded one.
\<close>

theorem Date_JSON_round_trip_fails:
  "Date_MarshalJSON (Date (time_Date 2017 8 1 0 0 0 0 0)) = (''\"2017-08-01\"'', None)
   \<and> Date_UnmarshalJSON (Date zero_Time) ''\"2017-08-01\"'' =
       (Date zero_Time,
        Some (ParseError ''\"2006-01-02T15:04:05Z07:00\"'' ''\"2017-08-01\"'' ''T'' ''\"'' []))
   \<and> \<not> Date_Equal (fst (Date_UnmarshalJSON (Date zero_Time) ''\"2017-08-01\"''))
          (Date (time_Date 2017 8 1 0 0 0 0 0))"
proof -
  have m: "Date_MarshalJSON (Date (time_Date 2017 8 1 0 0 0 0 0)) = (''\"2017-08-01\"'', None)"
    by (simp add: Date_MarshalJSON_def Date_IsZero_def Time_IsZero_def time_Date_midnight
          DefaultServerDateFormat_def Format_midnight)
  have u: "Date_UnmarshalJSON (Date zero_Time) ''\"2017-08-01\"'' =
       (Date zero_Time,
        Some (ParseError ''\"2006-01-02T15:04:05Z07:00\"'' ''\"2017-08-01\"'' ''T'' ''\"'' []))"
    by (simp add: Date_UnmarshalJSON_def Time_UnmarshalJSON_def RFC3339_def Parse_RFC3339_of_date)
  have z: "Date_String (Date zero_Time) = ''false''"
    by (simp add: Date_String_def Date_MarshalJSON_def Date_IsZero_def Time_IsZero_def
          zero_Time_sel strings_Trim_def)
  have s: "Date_String (Date (time_Date 2017 8 1 0 0 0 0 0)) = ''2017-08-01''"
    by (simp add: Date_String_def m strings_Trim_def)
  show ?thesis
    by (simp add: m u Date_Equal_def z s)
qed

subsection \<open>\<^verbatim>\<open>RecordIDWithName\<close> and JSON\<close>

lemma assert_int64_valueInterface:
  "\<exists>dyn. assert_int64 (valueInterface j) = Inl (TypeAssertionError dyn ''int64'')"
  by (cases j) simp_all

text \<open>
  Claim C3. \<^verbatim>\<open>MarshalJSON\<close> writes the two-element array of the id and the name. On the
  one-element array \<^verbatim>\<open>[1]\<close>, which the claim has rejected with a decode error,
  \<^verbatim>\<open>UnmarshalJSON\<close> panics instead: the decoder pads the array without an error and
  stores the number as a \<^verbatim>\<open>float64\<close>, on which the assertion of an \<^verbatim>\<open>int64\<close> fails.
  The same happens on every JSON array, whatever its length, the array
  \<^verbatim>\<open>MarshalJSON\<close> writes included, and on \<^verbatim>\<open>null\<close>. A JSON value that is neither an
  array nor \<^verbatim>\<open>null\<close> is returned as an error of the decoder.
\<close>

theorem RecordIDWithName_UnmarshalJSON_panics:
  "RecordIDWithName_MarshalJSON rf = (JArray [JNumber (real_of_int (sint (ID rf))), JString (Name rf)], None)
   \<and> RecordIDWithName_UnmarshalJSON rf (JArray [JNumber 1]) =
         Inl (TypeAssertionError (Some ''float64'') ''int64'')
   \<and> (\<exists>dyn. RecordIDWithName_UnmarshalJSON rf (JArray xs) = Inl (TypeAssertionError dyn ''int64''))
   \<and> (\<exists>dyn. RecordIDWithName_UnmarshalJSON rf (fst (RecordIDWithName_MarshalJSON rf)) =
                Inl (TypeAssertionError dyn ''int64''))
   \<and> RecordIDWithName_UnmarshalJSON rf JNull = Inl (TypeAssertionError None ''int64'')
   \<and> RecordIDWithName_UnmarshalJSON rf (JObject kvs) =
         Inr (rf, Some (UnmarshalTypeError ''object'' ''[2]interface {}''))"
proof -
  have arr: "\<exists>dyn. RecordIDWithName_UnmarshalJSON rf (JArray ys) = Inl (TypeAssertionError dyn ''int64'')"
    for ys
  proof (cases ys)
    case Nil
    then show ?thesis
      by (simp add: RecordIDWithName_UnmarshalJSON_def json_Unmarshal_def)
  next
    case (Cons y ys')
    obtain dyn where "assert_int64 (valueInterface y) = Inl (TypeAssertionError dyn ''int64'')"
      using assert_int64_valueInterface by blast
    with Cons show ?thesis
      by (simp add: RecordIDWithName_UnmarshalJSON_def json_Unmarshal_def)
  qed
  show ?thesis
    using arr [of xs] arr [of "[JNumber (real_of_int (sint (ID rf))), JString (Name rf)]"]
    by (simp add: RecordIDWithName_MarshalJSON_def)
       (simp add: RecordIDWithName_UnmarshalJSON_def json_Unmarshal_def)
qed

subsection \<open>\<^verbatim>\<open>Date.Scan\<close>\<close>

text \<open>
  Claim C4. \<^verbatim>\<open>Scan\<close> copies a \<^verbatim>\<open>time.Time\<close> into the receiver, with no error. The empty
  string makes the receiver the zero \<^verbatim>\<open>Date\<close>, with no error. A string that is not
  empty is parsed with the date layout, and with the date-time layout if that fails; the
  receiver and the error are those of the parse that counts, so that an error is returned
  exactly when both parses fail. A source of any other dynamic type (the nil interface
  included) leaves the receiver as it is and gives the error whose text names the type.
  \<^verbatim>\<open>Scan\<close> has no panic: its result is always a receiver and an error.
\<close>

theorem Date_Scan_shapes:
  "Date_Scan d (ITime t) = (Date t, None)
   \<and> Date_Scan d (IString []) = (Date zero_Time, None)
   \<and> (s \<noteq> [] \<longrightarrow>
        Date_Scan d (IString s) =
          (if snd (ParseDateWithLayout DefaultServerDateFormat s) = None
           then ParseDateWithLayout DefaultServerDateFormat s
           else ParseDateWithLayout DefaultServerDateTimeFormat s))
   \<and> (s \<noteq> [] \<longrightarrow>
        (snd (Date_Scan d (IString s)) \<noteq> None \<longleftrightarrow>
           snd (ParseDateWithLayout DefaultServerDateFormat s) \<noteq> None
           \<and> snd (ParseDateWithLayout DefaultServerDateTimeFormat s) \<noteq> None))
   \<and> ((\<forall>t'. src \<noteq> ITime t') \<and> (\<forall>s'. src \<noteq> IString s') \<longrightarrow>
        Date_Scan d src =
          (d, Some (ErrorString (''date data is not time.Time but '' @ typeName src))))"
proof (intro conjI impI)
  show "Date_Scan d (ITime t) = (Date t, None)"
    by (simp add: Date_Scan_def)
  show "Date_Scan d (IString []) = (Date zero_Time, None)"
    by (simp add: Date_Scan_def)
  show "Date_Scan d (IString s) =
          (if snd (ParseDateWithLayout DefaultServerDateFormat s) = None
           then ParseDateWithLayout DefaultServerDateFormat s
           else ParseDateWithLayout DefaultServerDateTimeFormat s)" if "s \<noteq> []"
    using that by (simp add: Date_Scan_def split: prod.splits)
  show "snd (Date_Scan d (IString s)) \<noteq> None \<longleftrightarrow>
           snd (ParseDateWithLayout DefaultServerDateFormat s) \<noteq> None
           \<and> snd (ParseDateWithLayout DefaultServerDateTimeFormat s) \<noteq> None" if "s \<noteq> []"
    using that by (auto simp: Date_Scan_def split: prod.splits)
  show "Date_Scan d src =
          (d, Some (ErrorString (''date data is not time.Time but '' @ typeName src)))"
    if "(\<forall>t'. src \<noteq> ITime t') \<and> (\<forall>s'. src \<noteq> IString s')"
    using that by (cases src) (simp_all add: Date_Scan_def)
qed

theorem Date_Scan_shapes_witness:
  "Date_Scan (Date zero_Time) (IString ''2017-08-01 10:02:57'') =
     (Date \<lparr>sec = 63637178577, nsec = 0, loc = 0\<rparr>, None)
   \<and> Date_Scan (Date zero_Time) (IString ''2017-08-01'') =
     (Date \<lparr>sec = 63637142400, nsec = 0, loc = 0\<rparr>, None)
   \<and> Date_Scan (Date zero_Time) (IStringSlice [''foo'', ''bar'']) =
     (Date zero_Time, Some (ErrorString ''date data is not time.Time but []string''))
   \<and> Date_Scan (Date zero_Time) INil =
     (Date zero_Time, Some (ErrorString ''date data is not time.Time but <nil>''))"
  using Date_Scan_shapes [of "Date zero_Time" zero_Time "''2017-08-01 10:02:57''"
          "IStringSlice [''foo'', ''bar'']"]
        Date_Scan_shapes [of "Date zero_Time" zero_Time "''2017-08-01''" INil]
  by (simp add: ParseDateWithLayout_def DefaultServerDateFormat_def
        DefaultServerDateTimeFormat_def Parse_date_of_datetime Parse_datetime_of_datetime
        Parse_date_of_date)

subsection \<open>\<^verbatim>\<open>Date.ToDateTime\<close>\<close>

text \<open>
  Claim C5, at the \<^verbatim>\<open>Date\<close> the package's test builds by parsing \<^verbatim>\<open>2017-08-01 10:02:57\<close>
  with the date-time layout. Its \<^verbatim>\<open>ToDateTime\<close> is on August 1, 2017, and its time of day
  is 10:02:57, not 00:00:00.
\<close>

theorem ToDateTime_keeps_time_of_day:
  "Time_Date (DateTime_Time (Date_ToDateTime
      (fst (ParseDateWithLayout DefaultServerDateTimeFormat ''2017-08-01 10:02:57'')))) = (2017, 8, 1)
   \<and> Time_Clock (DateTime_Time (Date_ToDateTime
      (fst (ParseDateWithLayout DefaultServerDateTimeFormat ''2017-08-01 10:02:57'')))) = (10, 2, 57)
   \<and> Time_Clock (DateTime_Time (Date_ToDateTime
      (fst (ParseDateWithLayout DefaultServerDateTimeFormat ''2017-08-01 10:02:57'')))) \<noteq> (0, 0, 0)"
proof -
  have "Time_Date \<lparr>sec = 63637178577, nsec = 0, loc = 0\<rparr> = (2017, 8, 1)"
    by code_simp
  moreover have "Time_Clock \<lparr>sec = 63637178577, nsec = 0, loc = 0\<rparr> = (10, 2, 57)"
    by code_simp
  ultimately show ?thesis
    by (simp add: ParseDateWithLayout_def DefaultServerDateTimeFormat_def
          Parse_datetime_of_datetime Date_ToDateTime_def)
qed

text \<open>
  Claim C5, amended. For every \<^verbatim>\<open>Date\<close> \<open>d\<close>, \<^verbatim>\<open>d.ToDateTime()\<close> wraps the very instant of
  \<open>d\<close>: the result lies on the same calendar day as \<open>d\<close> and has the time of day of \<open>d\<close>,
  which is 00:00:00 exactly when \<open>d\<close> itself is at midnight.
\<close>

theorem ToDateTime_same_instant:
  "DateTime_Time (Date_ToDateTime d) = Date_Time d
   \<and> Time_Date (DateTime_Time (Date_ToDateTime d)) = Time_Date (Date_Time d)
   \<and> Time_Clock (DateTime_Time (Date_ToDateTime d)) = Time_Clock (Date_Time d)
   \<and> (Time_Clock (DateTime_Time (Date_ToDateTime d)) = (0, 0, 0) \<longleftrightarrow>
        Time_Clock (Date_Time d) = (0, 0, 0))"
  by (simp add: Date_ToDateTime_def)

subsection \<open>\<^verbatim>\<open>Value\<close>\<close>

text \<open>
  Claim C6, at the zero value of the \<^verbatim>\<open>models\<close> package's \<^verbatim>\<open>Date\<close> and \<^verbatim>\<open>DateTime\<close>. Both
  are null, and \<^verbatim>\<open>Value\<close> returns a string for them, the text \<^verbatim>\<open>0001-01-01\<close> and the
  text \<^verbatim>\<open>0001-01-01 00:00:00\<close>: not the zero instant of \<^verbatim>\<open>time.Time\<close>.
\<close>

theorem models_Value_of_null_is_text:
  "models_Date_IsNull zero_Time
   \<and> models_Date_Value zero_Time = (IString ''0001-01-01'', None)
   \<and> fst (models_Date_Value zero_Time) \<noteq> ITime zero_Time
   \<and> models_DateTime_IsNull zero_Time
   \<and> models_DateTime_Value zero_Time = (IString ''0001-01-01 00:00:00'', None)
   \<and> fst (models_DateTime_Value zero_Time) \<noteq> ITime zero_Time"
  by (simp add: models_Date_Value_def models_Date_IsNull_def Format_zero_date
        models_DateTime_Value_def models_DateTime_IsNull_def Format_zero_datetime)

text \<open>
  Claim C6, amended. \<^verbatim>\<open>Value\<close> never returns the nil interface, which is what the storage
  layer takes for a null, and never an error. For a zero \<^verbatim>\<open>Date\<close> of the \<^verbatim>\<open>dates\<close>
  package it returns the zero instant of \<^verbatim>\<open>time.Time\<close>. For a null \<^verbatim>\<open>Date\<close> or \<^verbatim>\<open>DateTime\<close>
  of the \<^verbatim>\<open>models\<close> package it returns the text of the zero instant at the type's
  precision, a string. For a value that is not null it returns the instant (\<^verbatim>\<open>dates\<close>),
  the \<^verbatim>\<open>Date\<close> itself (\<^verbatim>\<open>models\<close>) or the formatted date and time (\<^verbatim>\<open>models\<close>
  \<^verbatim>\<open>DateTime\<close>).
\<close>

theorem Value_never_nil:
  "Date_Value d = (ITime (if Date_IsZero d then zero_Time else Date_Time d), None)
   \<and> models_Date_Value t =
        (if models_Date_IsNull t then IString (Time_Format zero_Time ''2006-01-02'')
         else IModelsDate t, None)
   \<and> models_DateTime_Value t =
        (IString (if models_DateTime_IsNull t then Time_Format zero_Time ''2006-01-02 15:04:05''
                  else Time_Format t ''2006-01-02 15:04:05''), None)
   \<and> fst (Date_Value d) \<noteq> INil
   \<and> fst (models_Date_Value t) \<noteq> INil
   \<and> fst (models_DateTime_Value t) \<noteq> INil"
  by (simp add: Date_Value_def models_Date_Value_def models_DateTime_Value_def
        Format_zero_date Format_zero_datetime)

theorem Value_never_nil_witness:
  "Date_Value (Date zero_Time) = (ITime zero_Time, None)
   \<and> Date_Value (Date \<lparr>sec = 36000, nsec = 0, loc = 0\<rparr>) =
        (ITime \<lparr>sec = 36000, nsec = 0, loc = 0\<rparr>, None)
   \<and> models_Date_Value \<lparr>sec = 36000, nsec = 0, loc = 0\<rparr> = (IString ''0001-01-01'', None)
   \<and> models_Date_Value \<lparr>sec = 63637178577, nsec = 0, loc = 0\<rparr> =
        (IModelsDate \<lparr>sec = 63637178577, nsec = 0, loc = 0\<rparr>, None)"
  using Value_never_nil [of "Date zero_Time" "\<lparr>sec = 36000, nsec = 0, loc = 0\<rparr>"]
        Value_never_nil [of "Date \<lparr>sec = 36000, nsec = 0, loc = 0\<rparr>"
                            "\<lparr>sec = 63637178577, nsec = 0, loc = 0\<rparr>"]
  by (simp add: Date_IsZero_def Time_IsZero_def zero_Time_sel models_Date_IsNull_def
        Format_ten_date Format_morning Format_zero_date)

subsection \<open>\<^verbatim>\<open>ParseDateWithLayout\<close> and \<^verbatim>\<open>ParseDate\<close>\<close>

text \<open>
  Claim C7, at its own input. \<^verbatim>\<open>ParseDateWithLayout(DefaultServerDateFormat, "")\<close> returns
  an error that is not nil.
\<close>

theorem ParseDateWithLayout_empty_is_error:
  "snd (ParseDateWithLayout DefaultServerDateFormat []) \<noteq> None"
  by (simp add: ParseDateWithLayout_def DefaultServerDateFormat_def Parse_date_of_empty)

text \<open>
  Claim C7, amended. \<^verbatim>\<open>ParseDateWithLayout(DefaultServerDateFormat, "")\<close> returns the zero
  \<^verbatim>\<open>Date\<close> together with the parse error of \<^verbatim>\<open>time.Parse\<close>, which finds no year in the
  empty string: for the parser the empty string is malformed. It is \<^verbatim>\<open>Scan\<close> that takes
  the empty string for an absent date and returns the zero \<^verbatim>\<open>Date\<close> with no error.
\<close>

theorem ParseDateWithLayout_empty:
  "ParseDateWithLayout DefaultServerDateFormat [] =
     (Date zero_Time, Some (ParseError ''2006-01-02'' [] ''2006'' [] []))
   \<and> Date_Scan d (IString []) = (Date zero_Time, None)"
  by (simp add: ParseDateWithLayout_def DefaultServerDateFormat_def Parse_date_of_empty
        Date_Scan_def)

text \<open>
  Claim C8. \<^verbatim>\<open>ParseDate\<close> returns the \<^verbatim>\<open>Date\<close> that \<^verbatim>\<open>ParseDateWithLayout\<close> parsed with the
  date layout when that returns no error, and panics with that error when it returns
  one: it panics exactly when \<^verbatim>\<open>ParseDateWithLayout\<close> fails. A value in the canonical
  layout, four digits of year, two of a month from 01 to 12 and two of a day that the
  month has, with a hyphen between them, is parsed: \<^verbatim>\<open>ParseDate\<close> returns that day at
  00:00:00 UTC. \<^verbatim>\<open>ParseDate("2017-08-01")\<close> returns August 1, 2017, and
  \<^verbatim>\<open>ParseDate("2017-08-01 10:02:57")\<close> panics.
\<close>

theorem ParseDate_panics_iff:
  "ParseDate v =
     (case snd (ParseDateWithLayout DefaultServerDateFormat v) of
        None \<Rightarrow> Inr (fst (ParseDateWithLayout DefaultServerDateFormat v))
      | Some e \<Rightarrow> Inl (PanicError e))
   \<and> ((\<exists>p. ParseDate v = Inl p) \<longleftrightarrow>
        snd (ParseDateWithLayout DefaultServerDateFormat v) \<noteq> None)
   \<and> ((\<exists>d. ParseDate v = Inr d) \<longleftrightarrow>
        snd (ParseDateWithLayout DefaultServerDateFormat v) = None)
   \<and> (isDigitChar y1 \<and> isDigitChar y2 \<and> isDigitChar y3 \<and> isDigitChar y4
        \<and> isDigitChar m1 \<and> isDigitChar m2 \<and> isDigitChar d1 \<and> isDigitChar d2
        \<and> 1 \<le> digitVal m1 * 10 + digitVal m2 \<and> digitVal m1 * 10 + digitVal m2 \<le> 12
        \<and> 1 \<le> digitVal d1 * 10 + digitVal d2
        \<and> digitVal d1 * 10 + digitVal d2 \<le>
              daysIn (digitVal m1 * 10 + digitVal m2)
                (digitVal y1 * 1000 + digitVal y2 * 100 + digitVal y3 * 10 + digitVal y4)
        \<longrightarrow>
        ParseDate [y1, y2, y3, y4, CHR ''-'', m1, m2, CHR ''-'', d1, d2] =
          Inr (Date (time_Date
                 (digitVal y1 * 1000 + digitVal y2 * 100 + digitVal y3 * 10 + digitVal y4)
                 (digitVal m1 * 10 + digitVal m2) (digitVal d1 * 10 + digitVal d2) 0 0 0 0 0)))
   \<and> ParseDate ''2017-08-01'' = Inr (Date (time_Date 2017 8 1 0 0 0 0 0))
   \<and> (\<exists>e. ParseDate ''2017-08-01 10:02:57'' = Inl (PanicError e))"
proof -
  have 1: "ParseDate v =
     (case snd (ParseDateWithLayout DefaultServerDateFormat v) of
        None \<Rightarrow> Inr (fst (ParseDateWithLayout DefaultServerDateFormat v))
      | Some e \<Rightarrow> Inl (PanicError e))" for v
    by (simp add: ParseDate_def split: prod.splits option.splits)
  have 2: "ParseDateWithLayout DefaultServerDateFormat ''2017-08-01'' =
             (Date (time_Date 2017 8 1 0 0 0 0 0), None)"
    by (simp add: ParseDateWithLayout_def DefaultServerDateFormat_def Parse_date_of_date
          time_Date_midnight)
  have 3: "snd (ParseDateWithLayout DefaultServerDateFormat ''2017-08-01 10:02:57'') \<noteq> None"
    by (simp add: ParseDateWithLayout_def DefaultServerDateFormat_def Parse_date_of_datetime)
  have 4: "ParseDate ''2017-08-01'' = Inr (Date (time_Date 2017 8 1 0 0 0 0 0))"
    by (simp add: 1 2)
  have 5: "\<exists>e. ParseDate ''2017-08-01 10:02:57'' = Inl (PanicError e)"
    using 3 by (auto simp: 1 split: option.splits)
  have 6: "(\<exists>p. ParseDate v = Inl p) \<longleftrightarrow>
        snd (ParseDateWithLayout DefaultServerDateFormat v) \<noteq> None"
    by (auto simp: 1 split: option.splits)
  have 7: "(\<exists>d. ParseDate v = Inr d) \<longleftrightarrow>
        snd (ParseDateWithLayout DefaultServerDateFormat v) = None"
    by (auto simp: 1 split: option.splits)
  have 8: "ParseDate [y1, y2, y3, y4, CHR ''-'', m1, m2, CHR ''-'', d1, d2] =
          Inr (Date (time_Date
                 (digitVal y1 * 1000 + digitVal y2 * 100 + digitVal y3 * 10 + digitVal y4)
                 (digitVal m1 * 10 + digitVal m2) (digitVal d1 * 10 + digitVal d2) 0 0 0 0 0))"
    if "isDigitChar y1" "isDigitChar y2" "isDigitChar y3" "isDigitChar y4"
       "isDigitChar m1" "isDigitChar m2" "isDigitChar d1" "isDigitChar d2"
       "1 \<le> digitVal m1 * 10 + digitVal m2" "digitVal m1 * 10 + digitVal m2 \<le> 12"
       "1 \<le> digitVal d1 * 10 + digitVal d2"
       "digitVal d1 * 10 + digitVal d2 \<le>
              daysIn (digitVal m1 * 10 + digitVal m2)
                (digitVal y1 * 1000 + digitVal y2 * 100 + digitVal y3 * 10 + digitVal y4)"
    unfolding 1 ParseDateWithLayout_canonical_date [OF that] by simp
  from 1 [of "v"] 4 5 6 7 8 show ?thesis
    by blast
qed

theorem ParseDate_panics_iff_witness:
  "ParseDate ''2017-08-01'' = Inr (Date \<lparr>sec = 63637142400, nsec = 0, loc = 0\<rparr>)
   \<and> ParseDate ''2017-08-01 10:02:57'' =
       Inl (PanicError (ParseError ''2006-01-02'' ''2017-08-01 10:02:57'' [] '' 10:02:57''
                          '': extra text:  10:02:57''))
   \<and> ParseDate [] = Inl (PanicError (ParseError ''2006-01-02'' [] ''2006'' [] []))
   \<and> ParseDate ''2016-02-29'' = Inr (Date (time_Date 2016 2 29 0 0 0 0 0))"
proof -
  have "daysIn 2 2016 = 29"
    by code_simp
  then have "ParseDate ''2016-02-29'' = Inr (Date (time_Date 2016 2 29 0 0 0 0 0))"
    using ParseDate_panics_iff [where ?y1.0 = "CHR ''2''" and ?y2.0 = "CHR ''0''"
            and ?y3.0 = "CHR ''1''" and ?y4.0 = "CHR ''6''" and ?m1.0 = "CHR ''0''"
            and ?m2.0 = "CHR ''2''" and ?d1.0 = "CHR ''2''" and ?d2.0 = "CHR ''9''"
            and ?v = "[]"]
    by (simp add: isDigitChar_def digitVal_def)
  moreover have "ParseDate ''2017-08-01'' = Inr (Date \<lparr>sec = 63637142400, nsec = 0, loc = 0\<rparr>)
   \<and> ParseDate ''2017-08-01 10:02:57'' =
       Inl (PanicError (ParseError ''2006-01-02'' ''2017-08-01 10:02:57'' [] '' 10:02:57''
                          '': extra text:  10:02:57''))
   \<and> ParseDate [] = Inl (PanicError (ParseError ''2006-01-02'' [] ''2006'' [] []))"
    using ParseDate_panics_iff [where ?v = "''2017-08-01''"]
          ParseDate_panics_iff [where ?v = "''2017-08-01 10:02:57''"]
          ParseDate_panics_iff [where ?v = "[]"]
    by (simp add: ParseDateWithLayout_def DefaultServerDateFormat_def Parse_date_of_date
          Parse_date_of_datetime Parse_date_of_empty)
  ultimately show ?thesis
    by simp
qed

subsection \<open>Equality and order of \<^verbatim>\<open>Date\<close>\<close>

text \<open>
  Claim C9. There are two \<^verbatim>\<open>Date\<close> values \<open>a\<close> and \<open>b\<close> on the same calendar day with
  different times of day, August 1, 2017 at 00:00:00 and at 10:02:57 UTC, such that
  \<^verbatim>\<open>a.Equal(b)\<close> and \<^verbatim>\<open>b.Greater(a)\<close> and \<^verbatim>\<open>a.LowerEqual(b)\<close> hold and \<^verbatim>\<open>b.LowerEqual(a)\<close>
  does not: \<^verbatim>\<open>Equal\<close> compares the strings of day precision, the order compares the
  instants.
\<close>

theorem Equal_and_Greater_together:
  "\<exists>a b. a = Date (time_Date 2017 8 1 0 0 0 0 0)
       \<and> b = Date (time_Date 2017 8 1 10 2 57 0 0)
       \<and> Time_Date (Date_Time a) = Time_Date (Date_Time b)
       \<and> Time_Clock (Date_Time a) \<noteq> Time_Clock (Date_Time b)
       \<and> Date_Equal a b
       \<and> Date_Greater b a
       \<and> Date_LowerEqual a b
       \<and> \<not> Date_LowerEqual b a"
proof -
  let ?a = "\<lparr>sec = 63637142400, nsec = 0, loc = 0\<rparr>"
  let ?b = "\<lparr>sec = 63637178577, nsec = 0, loc = 0\<rparr>"
  have d: "Time_Date ?a = (2017, 8, 1)" "Time_Date ?b = (2017, 8, 1)"
    by code_simp+
  have c: "Time_Clock ?a = (0, 0, 0)" "Time_Clock ?b = (10, 2, 57)"
    by code_simp+
  have s: "Date_String (Date ?a) = ''2017-08-01''" "Date_String (Date ?b) = ''2017-08-01''"
    by (simp_all add: Date_String_def Date_MarshalJSON_def Date_IsZero_def Time_IsZero_def
          DefaultServerDateFormat_def Format_midnight Format_morning strings_Trim_def)
  have sub: "Date_Sub (Date ?b) (Date ?a) = 36177000000000"
            "Date_Sub (Date ?a) (Date ?b) = - 36177000000000"
    by (simp_all add: Date_Sub_def Time_Sub_def minDuration_def maxDuration_def)
  show ?thesis
    by (simp add: time_Date_midnight time_Date_morning d c s sub Date_Equal_def
          Date_Greater_def Date_LowerEqual_def)
qed

subsection \<open>\<^verbatim>\<open>FieldMap.RemovePKIfZero\<close>\<close>

lemma assert_int64_cases:
  obtains (ok) n where "v = IInt64 n" "assert_int64 v = Inr n"
        | (bad) p where "\<forall>n. v \<noteq> IInt64 n" "assert_int64 v = Inl p"
  by (cases v) auto

text \<open>
  Claim C10. \<^verbatim>\<open>RemovePKIfZero\<close> returns normally exactly when every value present under
  the key \<^verbatim>\<open>"id"\<close> or \<^verbatim>\<open>"ID"\<close> has dynamic type \<^verbatim>\<open>int64\<close>, and panics otherwise.
  When it returns, the map it leaves is the given one without those of the two keys
  whose value was the \<^verbatim>\<open>int64\<close> 0: a nonzero \<^verbatim>\<open>int64\<close> stays, and so does every other
  key. An \<^verbatim>\<open>int\<close>, a string or the nil interface under either key makes it panic with
  a failed type assertion.
\<close>

theorem RemovePKIfZero_int64_only:
  "((\<exists>fm'. RemovePKIfZero fm = Inr fm') \<longleftrightarrow>
      (\<forall>k \<in> {''id'', ''ID''}. \<forall>v. fm k = Some v \<longrightarrow> (\<exists>n. v = IInt64 n)))
   \<and> (\<forall>fm'. RemovePKIfZero fm = Inr fm' \<longrightarrow>
         (\<forall>k. fm' k = (if k \<in> {''id'', ''ID''} \<and> fm k = Some (IInt64 0) then None else fm k)))
   \<and> (\<forall>k \<in> {''id'', ''ID''}. \<forall>v.
         fm k = Some v \<and> (v = INil \<or> (\<exists>i. v = IInt i) \<or> (\<exists>s. v = IString s)) \<longrightarrow>
           (\<exists>dyn. RemovePKIfZero fm = Inl (TypeAssertionError dyn ''int64'')))"
proof (intro conjI)
  show "(\<exists>fm'. RemovePKIfZero fm = Inr fm') \<longleftrightarrow>
      (\<forall>k \<in> {''id'', ''ID''}. \<forall>v. fm k = Some v \<longrightarrow> (\<exists>n. v = IInt64 n))"
  proof (cases "fm ''id''")
    case None
    show ?thesis
    proof (cases "fm ''ID''")
      case N2: None
      show ?thesis using None N2 by (simp add: RemovePKIfZero_def)
    next
      case (Some u)
      show ?thesis using None Some
        by (cases u rule: assert_int64_cases) (auto simp: RemovePKIfZero_def)
    qed
  next
    case (Some v)
    show ?thesis
    proof (cases v rule: assert_int64_cases)
      case (bad p)
      then show ?thesis using Some by (auto simp: RemovePKIfZero_def)
    next
      case (ok n)
      show ?thesis
      proof (cases "fm ''ID''")
        case None
        show ?thesis using None Some ok by (auto simp: RemovePKIfZero_def)
      next
        case S2: (Some u)
        show ?thesis using Some S2 ok
          by (cases u rule: assert_int64_cases) (auto simp: RemovePKIfZero_def)
      qed
    qed
  qed
next
  show "\<forall>fm'. RemovePKIfZero fm = Inr fm' \<longrightarrow>
         (\<forall>k. fm' k = (if k \<in> {''id'', ''ID''} \<and> fm k = Some (IInt64 0) then None else fm k))"
    by (auto simp: RemovePKIfZero_def split: option.splits sum.splits if_splits
             elim: assert_int64.elims)
next
  show "\<forall>k \<in> {''id'', ''ID''}. \<forall>v.
         fm k = Some v \<and> (v = INil \<or> (\<exists>i. v = IInt i) \<or> (\<exists>s. v = IString s)) \<longrightarrow>
           (\<exists>dyn. RemovePKIfZero fm = Inl (TypeAssertionError dyn ''int64''))"
    by (auto simp: RemovePKIfZero_def split: option.splits sum.splits if_splits
             elim: assert_int64.elims)
qed

theorem RemovePKIfZero_int64_only_witness:
  "(\<exists>fm'. RemovePKIfZero [''id'' \<mapsto> IInt64 0, ''ID'' \<mapsto> IInt64 5, ''name'' \<mapsto> IString ''x''] = Inr fm'
        \<and> fm' ''id'' = None \<and> fm' ''ID'' = Some (IInt64 5) \<and> fm' ''name'' = Some (IString ''x''))
   \<and> (\<exists>dyn. RemovePKIfZero [''id'' \<mapsto> IInt 0] = Inl (TypeAssertionError dyn ''int64''))
   \<and> (\<exists>dyn. RemovePKIfZero [''ID'' \<mapsto> IString ''7''] = Inl (TypeAssertionError dyn ''int64''))
   \<and> (\<exists>dyn. RemovePKIfZero [''id'' \<mapsto> INil] = Inl (TypeAssertionError dyn ''int64''))"
proof (intro conjI)
  let ?fm = "[''id'' \<mapsto> IInt64 0, ''ID'' \<mapsto> IInt64 5, ''name'' \<mapsto> IString ''x'']"
  have ok: "\<forall>k \<in> {''id'', ''ID''}. \<forall>v. ?fm k = Some v \<longrightarrow> (\<exists>n. v = IInt64 n)"
    by simp
  from RemovePKIfZero_int64_only [of ?fm] ok
  obtain fm' where r: "RemovePKIfZero ?fm = Inr fm'"
    by blast
  with RemovePKIfZero_int64_only [of ?fm]
  have "\<forall>k. fm' k = (if k \<in> {''id'', ''ID''} \<and> ?fm k = Some (IInt64 0) then None else ?fm k)"
    by blast
  then have "fm' ''id'' = None" "fm' ''ID'' = Some (IInt64 5)" "fm' ''name'' = Some (IString ''x'')"
    by simp_all
  with r show "\<exists>fm'. RemovePKIfZero ?fm = Inr fm'
        \<and> fm' ''id'' = None \<and> fm' ''ID'' = Some (IInt64 5) \<and> fm' ''name'' = Some (IString ''x'')"
    by blast
next
  show "\<exists>dyn. RemovePKIfZero [''id'' \<mapsto> IInt 0] = Inl (TypeAssertionError dyn ''int64'')"
    using RemovePKIfZero_int64_only [of "[''id'' \<mapsto> IInt 0]"] by simp
next
  show "\<exists>dyn. RemovePKIfZero [''ID'' \<mapsto> IString ''7''] = Inl (TypeAssertionError dyn ''int64'')"
    using RemovePKIfZero_int64_only [of "[''ID'' \<mapsto> IString ''7'']"] by simp
next
  show "\<exists>dyn. RemovePKIfZero [''id'' \<mapsto> INil] = Inl (TypeAssertionError dyn ''int64'')"
    using RemovePKIfZero_int64_only [of "[''id'' \<mapsto> INil]"] by simp
qed

end
